theory Spec2Isabelle
  imports Complex_Main
begin

section \<open>Errors\<close>

text \<open>
  The exceptions the modelled functions raise. A function that can raise returns
  \<open>py_error + 'a\<close>, with \<open>Inl\<close> for the exception.
\<close>

datatype py_error = ValueError | IndexError | AttributeError | ZeroDivisionError

section \<open>Pass detection (services/passes\_service.py)\<close>

text \<open>
  The dictionary \<open>current\<close> of \<open>compute_passes_mvd\<close>: each key is either absent
  (\<open>None\<close>) or bound. The two renderings of one instant (UTC and Montevideo time) are
  both kept as the instant itself; \<open>max_elevation_deg\<close> holds the rounded altitude that
  the propagator reports for the instant.
\<close>

record ('t, 'e) pass_dict =
  rise_utc :: "'t option"
  rise_uy :: "'t option"
  culmination_utc :: "'t option"
  culmination_uy :: "'t option"
  max_elevation_deg :: "'e option"
  set_utc :: "'t option"
  set_uy :: "'t option"

definition empty_dict :: "('t, 'e) pass_dict" where
  "empty_dict = \<lparr>rise_utc = None, rise_uy = None, culmination_utc = None,
     culmination_uy = None, max_elevation_deg = None, set_utc = None, set_uy = None\<rparr>"

text \<open>
  One iteration of the loop over \<open>zip(times, events)\<close>, on the pair
  \<open>(results, current)\<close>. Event kind 0 is a rise, 1 a culmination, 2 a set; any other
  kind matches no branch. \<open>altaz t\<close> is \<open>round(float(alt.degrees), 2)\<close> of the
  topocentric position at \<open>t\<close>.
\<close>

fun pass_step :: "('t \<Rightarrow> 'e) \<Rightarrow> ('t, 'e) pass_dict list \<times> ('t, 'e) pass_dict \<Rightarrow> 't \<times> int
    \<Rightarrow> ('t, 'e) pass_dict list \<times> ('t, 'e) pass_dict" where
  "pass_step altaz (results, current) (t, e) =
     (if e = 0 then
        (results, empty_dict\<lparr>rise_utc := Some t, rise_uy := Some t\<rparr>)
      else if e = 1 then
        (results, current\<lparr>culmination_utc := Some t, culmination_uy := Some t,
                          max_elevation_deg := Some (altaz t)\<rparr>)
      else if e = 2 then
        (let current' = current\<lparr>set_utc := Some t, set_uy := Some t\<rparr>
         in (if max_elevation_deg current' \<noteq> None then results @ [current'] else results,
             empty_dict))
      else (results, current))"

definition pass_loop :: "('t \<Rightarrow> 'e) \<Rightarrow> ('t, 'e) pass_dict list \<times> ('t, 'e) pass_dict
    \<Rightarrow> ('t \<times> int) list \<Rightarrow> ('t, 'e) pass_dict list \<times> ('t, 'e) pass_dict" where
  "pass_loop altaz acc evs = foldl (pass_step altaz) acc evs"

text \<open>The \<open>passes\<close> entry of the result of \<open>compute_passes_mvd\<close>.\<close>

definition compute_passes_mvd :: "('t \<Rightarrow> 'e) \<Rightarrow> ('t \<times> int) list \<Rightarrow> ('t, 'e) pass_dict list" where
  "compute_passes_mvd altaz evs = fst (pass_loop altaz ([], empty_dict) evs)"

text \<open>The invariant of the loop: what every emitted pass and the pending dictionary satisfy.\<close>

definition culminated :: "('t, 'e) pass_dict \<Rightarrow> bool" where
  "culminated p \<longleftrightarrow> culmination_utc p \<noteq> None \<and> max_elevation_deg p \<noteq> None"

definition pass_inv :: "('t, 'e) pass_dict list \<times> ('t, 'e) pass_dict \<Rightarrow> bool" where
  "pass_inv acc \<longleftrightarrow>
     (\<forall>p \<in> set (fst acc). culminated p \<and> set_utc p \<noteq> None) \<and>
     (max_elevation_deg (snd acc) \<noteq> None \<longrightarrow> culmination_utc (snd acc) \<noteq> None)"

section \<open>Ground track sampling (services/track\_service.py, services/track\_now\_service.py)\<close>

text \<open>
  Instants are seconds on the UTC time line, as rationals (a \<open>datetime\<close> is a whole
  number of microseconds; \<open>linspace\<close> divides an interval). Latitudes and longitudes
  are degrees; the floats of the source are taken as the rationals they denote.
  The resolved satellite enters as \<open>subpoint\<close>, the latitude and longitude that the
  propagator reports below the satellite at an instant; a failure to resolve the satellite
  is raised before any of the code modelled here runs.
\<close>

record track_point =
  t_utc :: rat
  t_uy :: rat
  lat :: rat
  lon :: rat

record track =
  points :: "track_point list"
  coordinates :: "rat list list"

text \<open>\<open>int(x)\<close> of a float: truncation towards zero.\<close>

definition py_int :: "rat \<Rightarrow> int" where
  "py_int x = (if 0 \<le> x then \<lfloor>x\<rfloor> else \<lceil>x\<rceil>)"

text \<open>\<open>round(x)\<close>: to the nearest integer, a tie to the even neighbour.\<close>

definition round_half_even :: "rat \<Rightarrow> int" where
  "round_half_even x =
     (let f = \<lfloor>x\<rfloor>; d = x - of_int f
      in if d < 1 / 2 then f else if 1 / 2 < d then f + 1 else if even f then f else f + 1)"

text \<open>\<open>round(x, 6)\<close>.\<close>

definition round6 :: "rat \<Rightarrow> rat" where
  "round6 x = of_int (round_half_even (x * 1000000)) / 1000000"

text \<open>
  \<open>ts.linspace(t0, t1, n)\<close>: \<open>n\<close> instants from \<open>t0\<close> to \<open>t1\<close>, both included,
  evenly spaced.
\<close>

definition linspace :: "rat \<Rightarrow> rat \<Rightarrow> nat \<Rightarrow> rat list" where
  "linspace t0 t1 n = map (\<lambda>i. t0 + of_nat i * ((t1 - t0) / of_nat (n - 1))) [0..<n]"

text \<open>The sample appended to \<open>points\<close> for the instant \<open>t\<close>.\<close>

definition track_sample :: "(rat \<Rightarrow> rat \<times> rat) \<Rightarrow> rat \<Rightarrow> track_point" where
  "track_sample subpoint t =
     \<lparr>t_utc = t, t_uy = t, lat = round6 (fst (subpoint t)), lon = round6 (snd (subpoint t))\<rparr>"

text \<open>
  \<open>compute_track\<close>, from the parsed \<open>start_dt\<close> and \<open>end_dt\<close> on. The loop appends the
  rounded sample to \<open>points\<close> and the pair \<open>[lon, lat]\<close>, not rounded, to \<open>coords\<close>.
\<close>

definition compute_track :: "(rat \<Rightarrow> rat \<times> rat) \<Rightarrow> rat \<Rightarrow> rat \<Rightarrow> int \<Rightarrow> py_error + track" where
  "compute_track subpoint start_dt end_dt step_seconds =
     (if end_dt \<le> start_dt then Inl ValueError
      else if step_seconds = 0 then Inl ZeroDivisionError
      else
        let total_seconds = py_int (end_dt - start_dt);
            n = max 2 (total_seconds div step_seconds + 1);
            times = linspace start_dt end_dt (nat n)
        in Inr \<lparr>points = map (track_sample subpoint) times,
                coordinates = map (\<lambda>t. [snd (subpoint t), fst (subpoint t)]) times\<rparr>)"

text \<open>
  The loop \<open>while t <= end_dt: times_dt.append(t); t += timedelta(seconds=step_seconds)\<close>
  of \<open>compute_track_now\<close>. It need not end (a step that is not positive), so it returns
  an option: \<open>None\<close> stands for a loop that runs forever.
\<close>

partial_function (option) track_now_times :: "rat \<Rightarrow> rat \<Rightarrow> rat \<Rightarrow> rat list \<Rightarrow> rat list option" where
  "track_now_times t end_dt step times_dt =
     (if t \<le> end_dt then track_now_times (t + step) end_dt step (times_dt @ [t])
      else Some times_dt)"

text \<open>
  \<open>compute_track_now\<close>, with the instant \<open>start_dt\<close> that \<open>datetime.now\<close> returns as
  an argument. The polyline is built from the rounded fields of the samples.
\<close>

definition compute_track_now :: "(rat \<Rightarrow> rat \<times> rat) \<Rightarrow> rat \<Rightarrow> int \<Rightarrow> int \<Rightarrow> (py_error + track) option" where
  "compute_track_now subpoint start_dt minutes step_seconds =
     (if minutes < 1 \<or> 180 < minutes then Some (Inl ValueError)
      else if step_seconds < 1 \<or> 120 < step_seconds then Some (Inl ValueError)
      else
        let end_dt = start_dt + 60 * of_int minutes
        in case track_now_times start_dt end_dt (of_int step_seconds) [] of
             None \<Rightarrow> None
           | Some times_dt \<Rightarrow>
               let pts = map (track_sample subpoint) times_dt
               in Some (Inr \<lparr>points = pts, coordinates = map (\<lambda>p. [lon p, lat p]) pts\<rparr>))"

section \<open>Python strings\<close>

text \<open>
  A \<open>str\<close> is modelled as a \<open>string\<close> whose characters are the code points 0 to 255.
  On these, \<open>str.isspace\<close>, the line boundaries of \<open>str.splitlines\<close> and
  \<open>str.isdigit\<close> are the sets below. The byte order mark U+FEFF is not among them, so
  stripping it from the left of \<open>line1\<close> leaves such a string as it is.
\<close>

definition isspace :: "char \<Rightarrow> bool" where
  "isspace c \<longleftrightarrow> c \<in> set [CHR 0x09, CHR 0x0A, CHR 0x0B, CHR 0x0C, CHR 0x0D, CHR 0x1C, CHR 0x1D,
     CHR 0x1E, CHR 0x1F, CHR 0x20, CHR 0x85, CHR 0xA0]"

definition is_linebreak :: "char \<Rightarrow> bool" where
  "is_linebreak c \<longleftrightarrow> c \<in> set [CHR 0x0A, CHR 0x0B, CHR 0x0C, CHR 0x0D, CHR 0x1C, CHR 0x1D,
     CHR 0x1E, CHR 0x85]"

definition is_ascii_digit :: "char \<Rightarrow> bool" where
  "is_ascii_digit c \<longleftrightarrow> c \<in> set ''0123456789''"

text \<open>\<open>str.isdigit\<close> also holds of the superscripts two, three and one.\<close>

definition isdigit :: "char \<Rightarrow> bool" where
  "isdigit c \<longleftrightarrow> is_ascii_digit c \<or> c \<in> set [CHR 0xB2, CHR 0xB3, CHR 0xB9]"

definition lstrip :: "string \<Rightarrow> string" where
  "lstrip s = dropWhile isspace s"

definition rstrip :: "string \<Rightarrow> string" where
  "rstrip s = rev (dropWhile isspace (rev s))"

definition strip :: "string \<Rightarrow> string" where
  "strip s = lstrip (rstrip s)"

definition startswith :: "string \<Rightarrow> string \<Rightarrow> bool" where
  "startswith s p \<longleftrightarrow> take (length p) s = p"

text \<open>
  \<open>str.splitlines\<close>: the text is cut at every line boundary, a carriage return followed
  by a line feed counting as one; no empty line follows a final boundary. The first
  argument is the line read so far.
\<close>

fun splitlines_from :: "string \<Rightarrow> string \<Rightarrow> string list" where
  "splitlines_from cur [] = (if cur = [] then [] else [cur])"
| "splitlines_from cur [c] = (if is_linebreak c then [cur] else [cur @ [c]])"
| "splitlines_from cur (c # d # cs) =
     (if c = CHR 0x0D \<and> d = CHR 0x0A then cur # splitlines_from [] cs
      else if is_linebreak c then cur # splitlines_from [] (d # cs)
      else splitlines_from (cur @ [c]) (d # cs))"

definition splitlines :: "string \<Rightarrow> string list" where
  "splitlines s = splitlines_from [] s"

text \<open>\<open>str.split()\<close>: the maximal runs of characters that are not white space.\<close>

fun split_from :: "string \<Rightarrow> string \<Rightarrow> string list" where
  "split_from cur [] = (if cur = [] then [] else [cur])"
| "split_from cur (c # cs) =
     (if isspace c then (if cur = [] then split_from [] cs else cur # split_from [] cs)
      else split_from (cur @ [c]) cs)"

definition split :: "string \<Rightarrow> string list" where
  "split s = split_from [] s"

text \<open>
  \<open>int(s)\<close> of a \<open>str\<close>, base ten: white space around the numeral is dropped, a sign
  may lead, the digits are ASCII digits, and single underscores may stand between digits.
  \<open>None\<close> is the \<open>ValueError\<close>. (The interpreter's bound on the number of digits is
  not modelled.)
\<close>

definition digit_value :: "char \<Rightarrow> nat" where
  "digit_value c = of_char c - 48"

definition decimal_value :: "string \<Rightarrow> nat" where
  "decimal_value s = foldl (\<lambda>n c. 10 * n + digit_value c) 0 s"

fun digits_with_underscores :: "string \<Rightarrow> bool" where
  "digits_with_underscores [] = False"
| "digits_with_underscores [c] = is_ascii_digit c"
| "digits_with_underscores (c # d # cs) =
     (is_ascii_digit c \<and>
      (if d = CHR ''_'' then digits_with_underscores cs else digits_with_underscores (d # cs)))"

definition int_of_str :: "string \<Rightarrow> int option" where
  "int_of_str s =
     (let t = strip s;
          (negative, body) =
            (case t of
               c # cs \<Rightarrow> if c = CHR ''-'' then (True, cs) else if c = CHR ''+'' then (False, cs)
                         else (False, t)
             | [] \<Rightarrow> (False, t))
      in if digits_with_underscores body
         then (let n = int (decimal_value (filter (\<lambda>c. c \<noteq> CHR ''_'') body))
               in Some (if negative then - n else n))
         else None)"

text \<open>The decimal numeral of an integer, as an f-string writes it.\<close>

fun str_nat :: "nat \<Rightarrow> string" where
  "str_nat n = (if n < 10 then [''0123456789'' ! n] else str_nat (n div 10) @ [''0123456789'' ! (n mod 10)])"

definition str_int :: "int \<Rightarrow> string" where
  "str_int i = (if i < 0 then CHR ''-'' # str_nat (nat (- i)) else str_nat (nat i))"

section \<open>Element files (tle\_store.py, services/tle\_service.py)\<close>

record TLE =
  name :: string
  line1 :: string
  line2 :: string

text \<open>\<open>[ln.strip() for ln in text.splitlines() if ln.strip()]\<close>\<close>

definition non_blank_lines :: "string \<Rightarrow> string list" where
  "non_blank_lines text = filter (\<lambda>ln. ln \<noteq> []) (map strip (splitlines text))"

text \<open>
  \<open>_parse_catnr_from_line1\<close>: the digits of the second token. A line with fewer than
  two tokens raises \<open>IndexError\<close>.
\<close>

definition parse_catnr_from_line1 :: "string \<Rightarrow> py_error + int" where
  "parse_catnr_from_line1 l1 =
     (case split l1 of
        _ # token # _ \<Rightarrow>
          (let digits = filter isdigit token
           in if digits = [] then Inl ValueError
              else (case int_of_str digits of None \<Rightarrow> Inl ValueError | Some n \<Rightarrow> Inr n))
      | _ \<Rightarrow> Inl IndexError)"

text \<open>\<open>_read_tle_file\<close>, on the text of the file at \<open>path\<close>.\<close>

definition read_tle_file :: "string \<Rightarrow> int \<Rightarrow> py_error + TLE" where
  "read_tle_file text catnr =
     (let lines = non_blank_lines text
      in if length lines < 3 then Inl ValueError
         else
           let nm = lines ! 0; l1 = lines ! 1; l2 = lines ! 2
           in if \<not> startswith l1 ''1 '' \<or> \<not> startswith l2 ''2 '' then Inl ValueError
              else (case parse_catnr_from_line1 l1 of
                      Inl e \<Rightarrow> Inl e
                    | Inr found \<Rightarrow>
                        if found \<noteq> catnr then Inl ValueError
                        else Inr \<lparr>name = nm, line1 = l1, line2 = l2\<rparr>))"

text \<open>
  The body of the loop of \<open>_parse_tle_text_any\<close> at index \<open>i\<close>: \<open>None\<close> is
  \<open>continue\<close>, \<open>Some\<close> the value returned. The parameter \<open>catnr_of\<close> reads the
  catalogue number of a first line; any exception it raises is caught.
\<close>

definition tle_at :: "(string \<Rightarrow> py_error + int) \<Rightarrow> int \<Rightarrow> string list \<Rightarrow> nat
    \<Rightarrow> (string \<times> string \<times> string) option" where
  "tle_at catnr_of catnr lines i =
     (let l1 = lines ! i
      in if \<not> startswith l1 ''1 '' then None
         else (case catnr_of l1 of
                 Inl _ \<Rightarrow> None
               | Inr found \<Rightarrow>
                   if found \<noteq> catnr then None
                   else
                     let l2 = lines ! (i + 1)
                     in if \<not> startswith l2 ''2 '' then None
                        else Some (if 0 \<le> int i - 1 then lines ! (i - 1)
                                   else ''CATNR '' @ str_int catnr, l1, l2)))"

text \<open>The loop \<open>for i in range(1, len(lines) - 1)\<close>: the first index that returns.\<close>

fun first_return :: "(nat \<Rightarrow> 'a option) \<Rightarrow> nat list \<Rightarrow> 'a option" where
  "first_return body [] = None"
| "first_return body (i # is) = (case body i of Some r \<Rightarrow> Some r | None \<Rightarrow> first_return body is)"

definition parse_tle_text_with :: "(string \<Rightarrow> py_error + int) \<Rightarrow> string \<Rightarrow> int
    \<Rightarrow> (string \<times> string \<times> string) option" where
  "parse_tle_text_with catnr_of text catnr =
     (let lines = non_blank_lines text
      in first_return (tle_at catnr_of catnr lines) [1..<length lines - 1])"

text \<open>\<open>_parse_tle_text_any\<close> of \<open>tle_store.py\<close>.\<close>

definition parse_tle_text_any :: "string \<Rightarrow> int \<Rightarrow> (string \<times> string \<times> string) option" where
  "parse_tle_text_any text catnr = parse_tle_text_with parse_catnr_from_line1 text catnr"

text \<open>
  \<open>_parse_tle_text_any\<close> of \<open>services/tle_service.py\<close>, which reads the catalogue
  number as \<open>int(line1.split()[1])\<close>.
\<close>

definition int_of_second_token :: "string \<Rightarrow> py_error + int" where
  "int_of_second_token l1 =
     (case split l1 of
        _ # token # _ \<Rightarrow> (case int_of_str token of None \<Rightarrow> Inl ValueError | Some n \<Rightarrow> Inr n)
      | _ \<Rightarrow> Inl IndexError)"

definition service_parse_tle_text_any :: "string \<Rightarrow> int \<Rightarrow> (string \<times> string \<times> string) option" where
  "service_parse_tle_text_any text catnr = parse_tle_text_with int_of_second_token text catnr"

section \<open>The element store and the acquisition pipeline (tle\_store.py)\<close>

text \<open>
  A value decoded by \<open>json.loads\<close>. Python's \<open>None\<close> is the same value as JSON's
  \<open>null\<close>; an object is the list of its members, the keys distinct.
\<close>

datatype json = JNull | JBool bool | JNum rat | JStr string | JArr "json list"
  | JObj "(string \<times> json) list"

text \<open>The truth value of a decoded value: what \<open>if meta\<close> tests.\<close>

fun truthy :: "json \<Rightarrow> bool" where
  "truthy JNull = False"
| "truthy (JBool b) = b"
| "truthy (JNum x) = (x \<noteq> 0)"
| "truthy (JStr s) = (s \<noteq> [])"
| "truthy (JArr xs) = (xs \<noteq> [])"
| "truthy (JObj kvs) = (kvs \<noteq> [])"

text \<open>
  The content of a metadata file: text that \<open>json.loads\<close> rejects (an empty or cut off
  file among them), or the value it decodes to.
\<close>

datatype meta_content = Unreadable | Decoded json

text \<open>The addresses the pipeline sends a GET request to, for a catalogue number.\<close>

datatype url = Satnogs int | CelestrakOrg int | CelestrakCom int

text \<open>
  What a request to CelesTrak comes back with, as far as the code tells the cases apart:
  an exception of the transport, status 403, another status that \<open>raise_for_status\<close>
  rejects, or a body.
\<close>

datatype http_reply = TransportError | Forbidden | BadStatus | Body string

text \<open>
  The world outside the process. \<open>satnogs_tle catnr\<close> is the value that
  \<open>_fetch_tle_from_satnogs\<close> computes from the reply to its one request (lines 141 to
  180, which touch no file): a checked triple of name and two lines, or \<open>None\<close>.
  \<open>isoformat\<close> and \<open>fromisoformat\<close> are the methods of \<open>datetime\<close>, between an
  instant and its text; \<open>fromisoformat\<close> reads a text without an offset as UTC and
  returns \<open>None\<close> where the method raises.
\<close>

record environment =
  satnogs_tle :: "int \<Rightarrow> (string \<times> string \<times> string) option"
  celestrak :: "url \<Rightarrow> http_reply"
  isoformat :: "int \<Rightarrow> string"
  fromisoformat :: "string \<Rightarrow> int option"

text \<open>
  The state the module works on. Instants are microseconds on the UTC time line.
  A file of elements is its text and its modification time, by catalogue number:
  \<open>tle_files\<close> for \<open>tle_<catnr>.txt\<close>, \<open>tmp_files\<close> for \<open>tle_<catnr>.tmp\<close>,
  \<open>meta_files\<close> for \<open>tle_<catnr>.meta.json\<close>. \<open>last_refresh_attempt\<close> is the
  dictionary \<open>_LAST_REFRESH_ATTEMPT\<close>, \<open>clock\<close> what \<open>_now_utc()\<close> returns, and
  \<open>requests\<close> records the GET requests sent so far.
\<close>

record store =
  clock :: int
  tle_files :: "int \<Rightarrow> (string \<times> int) option"
  tmp_files :: "int \<Rightarrow> (string \<times> int) option"
  meta_files :: "int \<Rightarrow> meta_content option"
  last_refresh_attempt :: "int \<Rightarrow> int option"
  requests :: "url list"

definition TLE_TTL :: int where
  "TLE_TTL = 6 * 3600 * 1000000"

definition REFRESH_COOLDOWN :: int where
  "REFRESH_COOLDOWN = 2 * 60 * 1000000"


text \<open>\<open>_read_meta\<close>: \<open>None\<close> when the file is missing or does not decode.\<close>

definition read_meta :: "store \<Rightarrow> int \<Rightarrow> json" where
  "read_meta st catnr =
     (case meta_files st catnr of
        None \<Rightarrow> JNull
      | Some Unreadable \<Rightarrow> JNull
      | Some (Decoded meta) \<Rightarrow> meta)"

text \<open>
  \<open>_write_meta\<close>. \<open>Path.write_text\<close> opens the file for writing, which empties it,
  and then writes the text: the states a reader can see, in order.
\<close>

definition meta_record :: "environment \<Rightarrow> store \<Rightarrow> int \<Rightarrow> string \<Rightarrow> json" where
  "meta_record env st catnr source =
     JObj [(''catnr'', JNum (of_int catnr)),
           (''fetched_at_utc'', JStr (isoformat env (clock st))),
           (''source'', JStr source)]"

definition write_meta_steps :: "environment \<Rightarrow> store \<Rightarrow> int \<Rightarrow> string \<Rightarrow> store list" where
  "write_meta_steps env st catnr source =
     [st\<lparr>meta_files := (meta_files st)(catnr \<mapsto> Unreadable)\<rparr>,
      st\<lparr>meta_files := (meta_files st)(catnr \<mapsto> Decoded (meta_record env st catnr source))\<rparr>]"

definition write_meta :: "environment \<Rightarrow> store \<Rightarrow> int \<Rightarrow> string \<Rightarrow> store" where
  "write_meta env st catnr source = last (write_meta_steps env st catnr source)"

text \<open>
  \<open>_atomic_write_tle\<close>: the text is written to the temporary file, which then replaces
  the file of elements in one step.
\<close>

definition tle_text :: "string \<Rightarrow> string \<Rightarrow> string \<Rightarrow> string" where
  "tle_text nm l1 l2 = nm @ [CHR 0x0A] @ l1 @ [CHR 0x0A] @ l2 @ [CHR 0x0A]"

definition atomic_write_tle_steps :: "store \<Rightarrow> int \<Rightarrow> string \<Rightarrow> string \<Rightarrow> string \<Rightarrow> store list" where
  "atomic_write_tle_steps st catnr nm l1 l2 =
     (let s1 = st\<lparr>tmp_files := (tmp_files st)(catnr \<mapsto> ([], clock st))\<rparr>;
          s2 = s1\<lparr>tmp_files := (tmp_files s1)(catnr \<mapsto> (tle_text nm l1 l2, clock st))\<rparr>;
          s3 = s2\<lparr>tle_files := (tle_files s2)(catnr := tmp_files s2 catnr),
                   tmp_files := (tmp_files s2)(catnr := None)\<rparr>
      in [s1, s2, s3])"

definition atomic_write_tle :: "store \<Rightarrow> int \<Rightarrow> string \<Rightarrow> string \<Rightarrow> string \<Rightarrow> store" where
  "atomic_write_tle st catnr nm l1 l2 = last (atomic_write_tle_steps st catnr nm l1 l2)"

text \<open>
  \<open>_needs_refresh\<close>. With metadata that is not false, anything that goes wrong on the way
  to the instant of the fetch (no such key, a value that is not a text, a text that does
  not parse, metadata that is not an object) is an exception, and the answer is \<open>True\<close>.
\<close>

definition needs_refresh :: "environment \<Rightarrow> store \<Rightarrow> int \<Rightarrow> bool" where
  "needs_refresh env st catnr =
     (let meta = read_meta st catnr
      in if \<not> truthy meta then
           (case tle_files st catnr of
              None \<Rightarrow> True
            | Some (text, mtime) \<Rightarrow> clock st - mtime > TLE_TTL)
         else
           (case meta of
              JObj members \<Rightarrow>
                (case map_of members ''fetched_at_utc'' of
                   Some (JStr s) \<Rightarrow>
                     (case fromisoformat env s of
                        Some fetched \<Rightarrow> clock st - fetched > TLE_TTL
                      | None \<Rightarrow> True)
                 | _ \<Rightarrow> True)
            | _ \<Rightarrow> True))"

text \<open>\<open>int(delta.total_seconds())\<close>: whole seconds, cut towards zero.\<close>

definition whole_seconds :: "int \<Rightarrow> int" where
  "whole_seconds d = (if 0 \<le> d then d div 1000000 else - ((- d) div 1000000))"

text \<open>
  \<open>tle_age_seconds\<close>. \<open>meta.get\<close> stands outside the \<open>try\<close>: on metadata that is
  not false and not an object it raises \<open>AttributeError\<close>. A missing or false
  \<open>fetched_at_utc\<close>, and one that does not parse, lead to the modification time of the
  file of elements.
\<close>

definition mtime_age :: "store \<Rightarrow> int \<Rightarrow> int option" where
  "mtime_age st catnr =
     (case tle_files st catnr of
        None \<Rightarrow> None
      | Some (text, mtime) \<Rightarrow> Some (whole_seconds (clock st - mtime)))"

definition tle_age_seconds :: "environment \<Rightarrow> store \<Rightarrow> int \<Rightarrow> py_error + int option" where
  "tle_age_seconds env st catnr =
     (let meta = read_meta st catnr
      in if \<not> truthy meta then Inr (mtime_age st catnr)
         else
           (case meta of
              JObj members \<Rightarrow>
                (case map_of members ''fetched_at_utc'' of
                   Some v \<Rightarrow>
                     if truthy v then
                       (case v of
                          JStr s \<Rightarrow>
                            (case fromisoformat env s of
                               Some fetched \<Rightarrow> Inr (Some (whole_seconds (clock st - fetched)))
                             | None \<Rightarrow> Inr (mtime_age st catnr))
                        | _ \<Rightarrow> Inr (mtime_age st catnr))
                     else Inr (mtime_age st catnr)
                 | None \<Rightarrow> Inr (mtime_age st catnr))
            | _ \<Rightarrow> Inl AttributeError))"

text \<open>\<open>is_stale\<close>\<close>

definition is_stale :: "environment \<Rightarrow> store \<Rightarrow> int \<Rightarrow> py_error + bool" where
  "is_stale env st catnr =
     (case tle_age_seconds env st catnr of
        Inl e \<Rightarrow> Inl e
      | Inr None \<Rightarrow> Inr True
      | Inr (Some age) \<Rightarrow> Inr (age > whole_seconds TLE_TTL))"

text \<open>\<open>_fetch_tle_from_satnogs\<close>: one request, and the value computed from its reply.\<close>

definition fetch_tle_from_satnogs :: "environment \<Rightarrow> int \<Rightarrow> store
    \<Rightarrow> (string \<times> string \<times> string) option \<times> store" where
  "fetch_tle_from_satnogs env catnr st =
     (satnogs_tle env catnr, st\<lparr>requests := requests st @ [Satnogs catnr]\<rparr>)"

text \<open>
  The loop over the two addresses in \<open>_fetch_tle_from_celestrak\<close>: the value returned
  and the requests sent. An exception leaves the loop through the enclosing \<open>try\<close>.
\<close>

fun celestrak_loop :: "environment \<Rightarrow> int \<Rightarrow> url list
    \<Rightarrow> (string \<times> string \<times> string) option \<times> url list" where
  "celestrak_loop env catnr [] = (None, [])"
| "celestrak_loop env catnr (u # us) =
     (case celestrak env u of
        TransportError \<Rightarrow> (None, [u])
      | Forbidden \<Rightarrow> (let (r, sent) = celestrak_loop env catnr us in (r, u # sent))
      | BadStatus \<Rightarrow> (None, [u])
      | Body text \<Rightarrow>
          (case parse_tle_text_any text catnr of
             Some parsed \<Rightarrow> (Some parsed, [u])
           | None \<Rightarrow> (let (r, sent) = celestrak_loop env catnr us in (r, u # sent))))"

definition fetch_tle_from_celestrak :: "environment \<Rightarrow> int \<Rightarrow> store
    \<Rightarrow> (string \<times> string \<times> string) option \<times> store" where
  "fetch_tle_from_celestrak env catnr st =
     (let (r, sent) = celestrak_loop env catnr [CelestrakOrg catnr, CelestrakCom catnr]
      in (r, st\<lparr>requests := requests st @ sent\<rparr>))"

text \<open>The test \<open>last and (now - last) < _REFRESH_COOLDOWN\<close>.\<close>

definition in_cooldown :: "store \<Rightarrow> int \<Rightarrow> bool" where
  "in_cooldown st catnr =
     (case last_refresh_attempt st catnr of
        None \<Rightarrow> False
      | Some l \<Rightarrow> clock st - l < REFRESH_COOLDOWN)"

text \<open>\<open>refresh_tle_best_effort\<close>\<close>

definition refresh_tle_best_effort :: "environment \<Rightarrow> int \<Rightarrow> store \<Rightarrow> bool \<times> store" where
  "refresh_tle_best_effort env catnr st =
     (if in_cooldown st catnr then (False, st)
      else
        let st1 = st\<lparr>last_refresh_attempt := (last_refresh_attempt st)(catnr \<mapsto> clock st)\<rparr>;
            (satnogs, st2) = fetch_tle_from_satnogs env catnr st1
        in case satnogs of
             Some (nm, l1, l2) \<Rightarrow>
               (True, write_meta env (atomic_write_tle st2 catnr nm l1 l2) catnr ''satnogs'')
           | None \<Rightarrow>
               (let (cel, st3) = fetch_tle_from_celestrak env catnr st2
                in case cel of
                     Some (nm, l1, l2) \<Rightarrow>
                       (True, write_meta env (atomic_write_tle st3 catnr nm l1 l2) catnr ''celestrak'')
                   | None \<Rightarrow> (False, st3)))"





text \<open>
  \<open>get_satellite_by_key\<close>. The handle is the record of elements it is built from; the
  propagator's own reading of the two lines is outside the model. \<open>after_refresh\<close> is
  the store after the statement \<open>if allow_network and _needs_refresh(catnr): \<dots>\<close>.
\<close>

definition after_refresh :: "environment \<Rightarrow> bool \<Rightarrow> store \<Rightarrow> int \<Rightarrow> store" where
  "after_refresh env allow_network st catnr =
     (if allow_network \<and> needs_refresh env st catnr
      then snd (refresh_tle_best_effort env catnr st) else st)"




section \<open>Example environments and stores\<close>

text \<open>
  Concrete inputs for the closed theorems below. Instants are written as decimal
  numerals of microseconds, so that \<open>fromisoformat\<close> reads back what \<open>isoformat\<close> wrote.
\<close>

definition iss_line1 :: string where
  "iss_line1 = ''1 25544U 98067A   24001.50000000  .00016717  00000-0  10270-3 0  9005''"

definition iss_line2 :: string where
  "iss_line2 = ''2 25544  51.6400 208.9163 0006317  69.9862  25.2906 15.49560532    19''"

definition iss_payload :: string where
  "iss_payload = tle_text ''ISS (ZARYA)'' iss_line1 iss_line2"

definition two_line_payload :: string where
  "two_line_payload = iss_line1 @ [CHR 0x0A] @ iss_line2 @ [CHR 0x0A]"

definition offline :: environment where
  "offline = \<lparr>satnogs_tle = (\<lambda>catnr. None), celestrak = (\<lambda>u. TransportError),
     isoformat = str_int, fromisoformat = int_of_str\<rparr>"

definition celestrak_com_only :: environment where
  "celestrak_com_only =
     \<lparr>satnogs_tle = (\<lambda>catnr. None),
      celestrak = (\<lambda>u. case u of CelestrakCom catnr \<Rightarrow> Body iss_payload | _ \<Rightarrow> Forbidden),
      isoformat = str_int, fromisoformat = int_of_str\<rparr>"

definition empty_store :: store where
  "empty_store = \<lparr>clock = 0, tle_files = Map.empty, tmp_files = Map.empty,
     meta_files = Map.empty, last_refresh_attempt = Map.empty, requests = []\<rparr>"

text \<open>
  A store one hour after a fetch of the ISS elements, and the same store with the key
  \<open>fetched_at_utc\<close> missing from the metadata.
\<close>

definition seeded_store :: store where
  "seeded_store = empty_store
     \<lparr>clock := 3600000000,
      tle_files := [25544 \<mapsto> (iss_payload, 0)],
      meta_files := [25544 \<mapsto> Decoded (JObj [(''catnr'', JNum 25544),
        (''fetched_at_utc'', JStr ''0''), (''source'', JStr ''satnogs'')])]\<rparr>"

definition store_without_fetch_time :: store where
  "store_without_fetch_time = seeded_store
     \<lparr>meta_files := [25544 \<mapsto> Decoded (JObj [(''catnr'', JNum 25544),
        (''source'', JStr ''satnogs'')])]\<rparr>"

text \<open>A store whose file of elements for the ISS holds the two lines without a name.\<close>

definition store_with_two_lines :: store where
  "store_with_two_lines = seeded_store\<lparr>tle_files := [25544 \<mapsto> (two_line_payload, 0)]\<rparr>"

section \<open>Properties of pass detection\<close>

lemma pass_loop_Nil: "pass_loop altaz acc [] = acc"
  by (simp add: pass_loop_def)

lemma pass_loop_Cons: "pass_loop altaz acc (ev # evs) = pass_loop altaz (pass_step altaz acc ev) evs"
  by (simp add: pass_loop_def)

lemma pass_loop_append:
  "pass_loop altaz acc (evs @ evs') = pass_loop altaz (pass_loop altaz acc evs) evs'"
  by (simp add: pass_loop_def)

lemma pass_step_inv: "pass_inv acc \<Longrightarrow> pass_inv (pass_step altaz acc ev)"
  by (cases acc; cases ev) (auto simp: pass_inv_def culminated_def empty_dict_def Let_def)

lemma pass_loop_inv: "pass_inv acc \<Longrightarrow> pass_inv (pass_loop altaz acc evs)"
  by (induction evs arbitrary: acc) (simp_all add: pass_loop_Nil pass_loop_Cons pass_step_inv)

text \<open>
  C1, as amended. Every pass that \<open>compute_passes_mvd\<close> emits carries a culmination time,
  a maximum elevation and a set time; the only test before a pass is appended is
  \<open>"max_elevation_deg" in current\<close>, so a rise time is not guaranteed.
\<close>

theorem emitted_pass_has_culmination_and_set:
  "\<forall>p \<in> set (compute_passes_mvd altaz evs).
     culmination_utc p \<noteq> None \<and> max_elevation_deg p \<noteq> None \<and> set_utc p \<noteq> None"
proof -
  have "pass_inv (([], empty_dict) :: ('a, 'b) pass_dict list \<times> ('a, 'b) pass_dict)"
    by (simp add: pass_inv_def empty_dict_def)
  then have "pass_inv (pass_loop altaz ([], empty_dict) evs)"
    by (rule pass_loop_inv)
  then show ?thesis
    by (simp add: compute_passes_mvd_def pass_inv_def culminated_def)
qed

theorem emitted_pass_has_culmination_and_set_witness:
  "compute_passes_mvd (\<lambda>t. 45 :: int) [(1 :: int, 0), (2, 1), (3, 2)] \<noteq> [] \<and>
   list_all (\<lambda>p. culmination_utc p \<noteq> None \<and> max_elevation_deg p \<noteq> None \<and> set_utc p \<noteq> None)
     (compute_passes_mvd (\<lambda>t. 45 :: int) [(1 :: int, 0), (2, 1), (3, 2)])"
proof -
  have "compute_passes_mvd (\<lambda>t. 45 :: int) [(1 :: int, 0), (2, 1), (3, 2)] \<noteq> []"
    by (simp add: compute_passes_mvd_def pass_loop_def empty_dict_def)
  then show ?thesis
    using emitted_pass_has_culmination_and_set
      [of "\<lambda>t. 45 :: int" "[(1 :: int, 0), (2, 1), (3, 2)]"]
    unfolding list_all_iff by blast
qed

text \<open>
  C1, as stated, fails: a window that opens in the middle of a pass delivers a culmination
  and then a set with no rise before them, and the pass is emitted with no rise time.
\<close>

theorem pass_without_rise_counterexample:
  "compute_passes_mvd (\<lambda>t. 45 :: int) [(2 :: int, 1), (3, 2)] =
     [\<lparr>rise_utc = None, rise_uy = None, culmination_utc = Some 2, culmination_uy = Some 2,
       max_elevation_deg = Some 45, set_utc = Some 3, set_uy = Some 3\<rparr>]"
  by (simp add: compute_passes_mvd_def pass_loop_def empty_dict_def)

text \<open>
  C4. The three reference scenarios of the pass reducer: rise, culmination at elevation 45,
  set gives one pass with maximum elevation 45; two rises, culmination at elevation 30, set
  gives one pass whose rise time is the second rise; a lone rise gives no pass.
\<close>

theorem pass_reference_scenarios:
  assumes "altaz T2 = 45" and "altaz U3 = 30"
  shows "compute_passes_mvd altaz [(T1, 0), (T2, 1), (T3, 2)] =
           [\<lparr>rise_utc = Some T1, rise_uy = Some T1, culmination_utc = Some T2,
             culmination_uy = Some T2, max_elevation_deg = Some 45,
             set_utc = Some T3, set_uy = Some T3\<rparr>] \<and>
         compute_passes_mvd altaz [(U1, 0), (U2, 0), (U3, 1), (U4, 2)] =
           [\<lparr>rise_utc = Some U2, rise_uy = Some U2, culmination_utc = Some U3,
             culmination_uy = Some U3, max_elevation_deg = Some 30,
             set_utc = Some U4, set_uy = Some U4\<rparr>] \<and>
         compute_passes_mvd altaz [(V1, 0)] = []"
  using assms by (simp add: compute_passes_mvd_def pass_loop_def empty_dict_def)

theorem pass_reference_scenarios_witness:
  "(if (20 :: int) = 20 then 45 else (30 :: int)) = 45 \<and>
   (if (25 :: int) = 20 then 45 else (30 :: int)) = 30 \<and>
   map max_elevation_deg
     (compute_passes_mvd (\<lambda>t :: int. if t = 20 then 45 else (30 :: int))
        [(10, 0), (20, 1), (30, 2)]) = [Some 45] \<and>
   map rise_utc
     (compute_passes_mvd (\<lambda>t :: int. if t = 20 then 45 else (30 :: int))
        [(10, 0), (15, 0), (25, 1), (30, 2)]) = [Some 15] \<and>
   compute_passes_mvd (\<lambda>t :: int. if t = 20 then 45 else (30 :: int)) [(10, 0)] = []"
  using pass_reference_scenarios [where altaz = "\<lambda>t :: int. if t = 20 then 45 else (30 :: int)"
      and ?T1.0 = 10 and ?T2.0 = 20 and ?T3.0 = 30
      and ?U1.0 = 10 and ?U2.0 = 15 and ?U3.0 = 25 and ?U4.0 = 30 and ?V1.0 = 10]
  by simp

section \<open>Properties of ground track sampling\<close>






lemma t_utc_track_sample: "t_utc (track_sample subpoint t) = t"
  by (simp add: track_sample_def)



text \<open>
  The loop of \<open>compute_track_now\<close> ends whenever the step is positive, and then holds the
  instants \<open>t, t + step, \<dots>\<close> up to the last one that does not exceed \<open>end_dt\<close>.
\<close>

lemma track_now_times_steps:
  assumes "0 < step"
  shows "(if t \<le> end_dt then nat \<lfloor>(end_dt - t) / step\<rfloor> + 1 else 0) = k \<Longrightarrow>
         track_now_times t end_dt step acc =
           Some (acc @ map (\<lambda>i. t + of_nat i * step) [0..<k])"
proof (induction k arbitrary: t acc)
  case 0
  then have "\<not> t \<le> end_dt"
    by (simp split: if_splits)
  then show ?case
    by (subst track_now_times.simps) simp
next
  case (Suc k)
  then have le: "t \<le> end_dt" and k: "nat \<lfloor>(end_dt - t) / step\<rfloor> = k"
    by (simp_all split: if_splits)
  have shift: "(end_dt - (t + step)) / step = (end_dt - t) / step - 1"
    using assms by (simp add: field_simps)
  have "(if t + step \<le> end_dt then nat \<lfloor>(end_dt - (t + step)) / step\<rfloor> + 1 else 0) = k"
  proof (cases "t + step \<le> end_dt")
    case True
    then have "1 \<le> (end_dt - t) / step"
      using assms by (simp add: field_simps)
    then have f1: "1 \<le> \<lfloor>(end_dt - t) / step\<rfloor>"
      by linarith
    have f2: "\<lfloor>(end_dt - (t + step)) / step\<rfloor> = \<lfloor>(end_dt - t) / step\<rfloor> - 1"
      unfolding shift by linarith
    have "nat (\<lfloor>(end_dt - t) / step\<rfloor> - 1) + 1 = nat \<lfloor>(end_dt - t) / step\<rfloor>"
      using f1 by linarith
    then show ?thesis
      using True k by (simp only: f2 if_True)
  next
    case False
    then have "(end_dt - t) / step < 1"
      using assms by (simp add: field_simps)
    moreover have "0 \<le> (end_dt - t) / step"
      using le assms by simp
    ultimately have "\<lfloor>(end_dt - t) / step\<rfloor> = 0"
      by linarith
    then show ?thesis
      using False k by simp
  qed
  then have "track_now_times (t + step) end_dt step (acc @ [t]) =
      Some ((acc @ [t]) @ map (\<lambda>i. (t + step) + of_nat i * step) [0..<k])"
    by (rule Suc.IH)
  moreover have "map (\<lambda>i. t + of_nat i * step) [0..<Suc k] =
      t # map (\<lambda>i. (t + step) + of_nat i * step) [0..<k]"
    by (simp add: upt_conv_Cons map_Suc_upt [symmetric] algebra_simps del: upt_Suc)
  ultimately show ?case
    using le by (subst track_now_times.simps) simp
qed

lemma compute_track_now_times:
  assumes "1 \<le> minutes" "minutes \<le> 180" "1 \<le> step_seconds" "step_seconds \<le> 120"
  shows "\<exists>r. compute_track_now subpoint start_dt minutes step_seconds = Some (Inr r) \<and>
           map t_utc (points r) =
             map (\<lambda>i. start_dt + of_nat i * of_int step_seconds)
               [0..<nat (60 * minutes div step_seconds) + 1]"
proof -
  let ?end = "start_dt + 60 * of_int minutes"
  let ?step = "of_int step_seconds :: rat"
  have pos: "0 < ?step"
    using assms by simp
  have "(?end - start_dt) / ?step = of_int (60 * minutes) / of_int step_seconds"
    by simp
  then have fl: "\<lfloor>(?end - start_dt) / ?step\<rfloor> = 60 * minutes div step_seconds"
    by (simp only: floor_divide_of_int_eq)
  have le: "start_dt \<le> ?end"
    using assms by simp
  have "track_now_times start_dt ?end ?step [] =
      Some ([] @ map (\<lambda>i. start_dt + of_nat i * ?step)
        [0..<nat (60 * minutes div step_seconds) + 1])"
    by (rule track_now_times_steps [OF pos]) (use le fl in simp)
  then show ?thesis
    using assms
    by (simp add: compute_track_now_def Let_def t_utc_track_sample comp_def del: upt_Suc)
qed




lemma compute_track_now_single_sample:
  "\<exists>r. compute_track_now (\<lambda>t. (0, 0)) 0 1 90 = Some (Inr r) \<and> map t_utc (points r) = [0]"
  using compute_track_now_times [of 1 90 "\<lambda>t. (0, 0)" 0] by simp

lemma compute_track_coordinates:
  "compute_track subpoint start_dt end_dt step_seconds = Inr r \<Longrightarrow>
     coordinates r = map (\<lambda>p. [snd (subpoint (t_utc p)), fst (subpoint (t_utc p))]) (points r) \<and>
     map (map round6) (coordinates r) = map (\<lambda>p. [lon p, lat p]) (points r)"
  by (auto simp: compute_track_def Let_def track_sample_def comp_def split: if_splits)

lemma compute_track_now_coordinates:
  "compute_track_now subpoint start_dt minutes step_seconds = Some (Inr r) \<Longrightarrow>
     coordinates r = map (\<lambda>p. [lon p, lat p]) (points r)"
  by (auto simp: compute_track_now_def Let_def split: if_splits option.splits)

text \<open>
  C9, as amended. In both results the i-th polyline coordinate is the i-th sample's
  position in the order \<open>[lon, lat]\<close>, while the sample keeps the fields \<open>lat\<close> and
  \<open>lon\<close>. In \<open>compute_track_now\<close> the coordinate is the pair of the sample's (rounded)
  fields. In \<open>compute_track\<close> the coordinate holds the longitude and latitude as the
  propagator gave them, and the sample's fields are their roundings to six decimals.
\<close>

theorem polyline_matches_samples:
  "(compute_track subpoint start_dt end_dt step_seconds = Inr r \<longrightarrow>
      coordinates r = map (\<lambda>p. [snd (subpoint (t_utc p)), fst (subpoint (t_utc p))]) (points r) \<and>
      map (map round6) (coordinates r) = map (\<lambda>p. [lon p, lat p]) (points r)) \<and>
   (compute_track_now subpoint' now minutes step_seconds' = Some (Inr r') \<longrightarrow>
      coordinates r' = map (\<lambda>p. [lon p, lat p]) (points r'))"
  using compute_track_coordinates compute_track_now_coordinates by blast

lemma compute_track_example:
  "compute_track (\<lambda>t. (- 34.00390625, - 56.001953125)) 0 10 10 =
     Inr \<lparr>points =
            [\<lparr>t_utc = 0, t_uy = 0, lat = - 34.003906, lon = - 56.001953\<rparr>,
             \<lparr>t_utc = 10, t_uy = 10, lat = - 34.003906, lon = - 56.001953\<rparr>],
          coordinates = [[- 56.001953125, - 34.00390625], [- 56.001953125, - 34.00390625]]\<rparr>"
  by code_simp

lemma compute_track_now_example:
  "compute_track_now (\<lambda>t. (- 34.00390625, - 56.001953125)) 0 1 60 =
     Some (Inr \<lparr>points =
            [\<lparr>t_utc = 0, t_uy = 0, lat = - 34.003906, lon = - 56.001953\<rparr>,
             \<lparr>t_utc = 60, t_uy = 60, lat = - 34.003906, lon = - 56.001953\<rparr>],
          coordinates = [[- 56.001953, - 34.003906], [- 56.001953, - 34.003906]]\<rparr>)"
proof -
  let ?sp = "\<lambda>t :: rat. (- 34.00390625 :: rat, - 56.001953125 :: rat)"
  have "track_now_times 0 (0 + 60 * of_int 1) (of_int 60) [] =
      Some ([] @ map (\<lambda>i. 0 + of_nat i * of_int 60) [0..<2])"
    by (rule track_now_times_steps) simp_all
  moreover have "[0..<2] = [0, 1 :: nat]"
    by code_simp
  ultimately have "track_now_times 0 (0 + 60 * of_int 1) (of_int 60) [] = Some [0, 60]"
    by simp
  then have "compute_track_now ?sp 0 1 60 =
      Some (Inr \<lparr>points = map (track_sample ?sp) [0, 60],
                  coordinates = map (\<lambda>p. [lon p, lat p]) (map (track_sample ?sp) [0, 60])\<rparr>)"
    unfolding compute_track_now_def Let_def by simp
  also have "\<dots> =
      Some (Inr \<lparr>points =
            [\<lparr>t_utc = 0, t_uy = 0, lat = - 34.003906, lon = - 56.001953\<rparr>,
             \<lparr>t_utc = 60, t_uy = 60, lat = - 34.003906, lon = - 56.001953\<rparr>],
          coordinates = [[- 56.001953, - 34.003906], [- 56.001953, - 34.003906]]\<rparr>)"
    by code_simp
  finally show ?thesis .
qed

theorem polyline_matches_samples_witness:
  "compute_track (\<lambda>t. (- 34.00390625, - 56.001953125)) 0 10 10 =
     Inr (projr (compute_track (\<lambda>t. (- 34.00390625, - 56.001953125)) 0 10 10)) \<and>
   map (map round6)
     (coordinates (projr (compute_track (\<lambda>t. (- 34.00390625, - 56.001953125)) 0 10 10))) =
     [[- 56.001953, - 34.003906], [- 56.001953, - 34.003906]] \<and>
   compute_track_now (\<lambda>t. (- 34.00390625, - 56.001953125)) 0 1 60 =
     Some (Inr (projr (the (compute_track_now (\<lambda>t. (- 34.00390625, - 56.001953125)) 0 1 60)))) \<and>
   coordinates (projr (the (compute_track_now (\<lambda>t. (- 34.00390625, - 56.001953125)) 0 1 60))) =
     [[- 56.001953, - 34.003906], [- 56.001953, - 34.003906]]"
proof -
  let ?sp = "\<lambda>t :: rat. (- 34.00390625 :: rat, - 56.001953125 :: rat)"
  let ?r = "projr (compute_track ?sp 0 10 10)"
  let ?r' = "projr (the (compute_track_now ?sp 0 1 60))"
  have a: "compute_track ?sp 0 10 10 = Inr ?r"
    unfolding compute_track_example by simp
  have b: "compute_track_now ?sp 0 1 60 = Some (Inr ?r')"
    unfolding compute_track_now_example by simp
  have "map (map round6) (coordinates ?r) = map (\<lambda>p. [lon p, lat p]) (points ?r)"
    and "coordinates ?r' = map (\<lambda>p. [lon p, lat p]) (points ?r')"
    using polyline_matches_samples [of ?sp 0 10 10 ?r ?sp 0 1 60 ?r'] a b by blast+
  moreover have "map (\<lambda>p. [lon p, lat p]) (points ?r) =
      [[- 56.001953, - 34.003906], [- 56.001953, - 34.003906]]"
    unfolding compute_track_example by simp
  moreover have "map (\<lambda>p. [lon p, lat p]) (points ?r') =
      [[- 56.001953, - 34.003906], [- 56.001953, - 34.003906]]"
    unfolding compute_track_now_example by simp
  ultimately show ?thesis
    using a b by simp
qed

text \<open>
  C9, as stated, fails for \<open>compute_track\<close>: the polyline holds the values before
  rounding, the samples hold them rounded to six decimals.
\<close>

theorem polyline_not_rounded_counterexample:
  "coordinates (projr (compute_track (\<lambda>t. (- 34.00390625, - 56.001953125)) 0 10 10)) =
     [[- 56.001953125, - 34.00390625], [- 56.001953125, - 34.00390625]] \<and>
   map (\<lambda>p. [lon p, lat p])
     (points (projr (compute_track (\<lambda>t. (- 34.00390625, - 56.001953125)) 0 10 10))) =
     [[- 56.001953, - 34.003906], [- 56.001953, - 34.003906]] \<and>
   (- 56.001953125 :: rat) \<noteq> - 56.001953"
  unfolding compute_track_example by simp

section \<open>Properties of the element file parsers\<close>

lemmas str_eval = splitlines_def is_linebreak_def non_blank_lines_def strip_def lstrip_def
  rstrip_def isspace_def split_def isdigit_def is_ascii_digit_def int_of_str_def
  decimal_value_def digit_value_def startswith_def parse_catnr_from_line1_def
  int_of_second_token_def

lemmas tle_eval = parse_tle_text_any_def service_parse_tle_text_any_def parse_tle_text_with_def
  tle_at_def read_tle_file_def Let_def

subsection \<open>Tokens of a stripped line\<close>







subsection \<open>Reading the file of elements\<close>



subsection \<open>The free-text locator\<close>

lemma first_return_Some:
  "first_return body is = Some r \<Longrightarrow> \<exists>i \<in> set is. body i = Some r"
  by (induction "is") (auto split: option.splits)

text \<open>
  Whatever \<open>_parse_tle_text_any\<close> returns comes from an index \<open>i \<ge> 1\<close>: the first line
  that is not blank is never taken as the first line of the elements, and the name is
  always the line before, never the placeholder.
\<close>

lemma parse_tle_text_with_Some:
  assumes "parse_tle_text_with catnr_of content catnr = Some (nm, l1, l2)"
  shows "\<exists>i. 1 \<le> i \<and> i + 1 < length (non_blank_lines content) \<and>
           nm = non_blank_lines content ! (i - 1) \<and> l1 = non_blank_lines content ! i \<and>
           l2 = non_blank_lines content ! (i + 1) \<and>
           startswith l1 ''1 '' \<and> catnr_of l1 = Inr catnr \<and> startswith l2 ''2 ''"
proof -
  let ?ls = "non_blank_lines content"
  from assms obtain i where i: "i \<in> set [1..<length ?ls - 1]"
    and at: "tle_at catnr_of catnr ?ls i = Some (nm, l1, l2)"
    unfolding parse_tle_text_with_def Let_def by (blast dest: first_return_Some)
  from i have "1 \<le> i" and "i + 1 < length ?ls"
    by auto
  moreover from at \<open>1 \<le> i\<close> have "nm = ?ls ! (i - 1) \<and> l1 = ?ls ! i \<and> l2 = ?ls ! (i + 1) \<and>
      startswith l1 ''1 '' \<and> catnr_of l1 = Inr catnr \<and> startswith l2 ''2 ''"
    by (auto simp: tle_at_def Let_def split: if_splits sum.splits)
  ultimately show ?thesis
    by blast
qed

lemma three_line_payload_found:
  "parse_tle_text_any iss_payload 25544 = Some (''ISS (ZARYA)'', iss_line1, iss_line2)"
  by (simp add: iss_payload_def iss_line1_def iss_line2_def tle_text_def str_eval tle_eval)

text \<open>
  The variant in \<open>services/tle_service.py\<close> reads the catalogue number with \<open>int\<close>,
  which rejects the classification letter that follows it in a line of elements.
\<close>

lemma service_rejects_classification_letter:
  "service_parse_tle_text_any iss_payload 25544 = None"
  by (simp add: iss_payload_def iss_line1_def iss_line2_def tle_text_def str_eval tle_eval)

text \<open>
  C5. The claim fails where the matching line is the first line of the payload: the loop
  starts at index 1, so a payload of the two lines alone yields nothing, in both copies of
  \<open>_parse_tle_text_any\<close>; the placeholder \<open>CATNR <n>\<close> is never produced.
\<close>

theorem two_line_payload_not_found:
  "parse_tle_text_any two_line_payload 25544 = None \<and>
   service_parse_tle_text_any two_line_payload 25544 = None"
  by (simp add: two_line_payload_def iss_line1_def iss_line2_def str_eval tle_eval)

section \<open>Properties of the element store and the acquisition pipeline\<close>

lemmas store_eval = read_meta_def write_meta_def write_meta_steps_def meta_record_def
  atomic_write_tle_def atomic_write_tle_steps_def tle_text_def needs_refresh_def
  whole_seconds_def mtime_age_def tle_age_seconds_def is_stale_def fetch_tle_from_satnogs_def
  fetch_tle_from_celestrak_def in_cooldown_def refresh_tle_best_effort_def TLE_TTL_def
  REFRESH_COOLDOWN_def after_refresh_def

lemmas example_eval = iss_line1_def iss_line2_def iss_payload_def two_line_payload_def
  offline_def celestrak_com_only_def empty_store_def seeded_store_def
  store_without_fetch_time_def store_with_two_lines_def

subsection \<open>Writes\<close>

lemma write_meta_frame:
  "tle_files (write_meta env st catnr source) = tle_files st"
  "tmp_files (write_meta env st catnr source) = tmp_files st"
  "last_refresh_attempt (write_meta env st catnr source) = last_refresh_attempt st"
  "requests (write_meta env st catnr source) = requests st"
  "clock (write_meta env st catnr source) = clock st"
  by (simp_all add: write_meta_def write_meta_steps_def)

lemma atomic_write_tle_frame:
  "meta_files (atomic_write_tle st catnr nm l1 l2) = meta_files st"
  "last_refresh_attempt (atomic_write_tle st catnr nm l1 l2) = last_refresh_attempt st"
  "requests (atomic_write_tle st catnr nm l1 l2) = requests st"
  "clock (atomic_write_tle st catnr nm l1 l2) = clock st"
  by (simp_all add: atomic_write_tle_def atomic_write_tle_steps_def Let_def)

text \<open>
  The file of elements is replaced in one step: in every state that the write passes
  through, a reader finds the old file or the new one, whole.
\<close>

lemma atomic_write_tle_old_or_new:
  "list_all (\<lambda>s. tle_files s catnr = tle_files st catnr \<or>
                  tle_files s catnr = Some (tle_text nm l1 l2, clock st))
     (atomic_write_tle_steps st catnr nm l1 l2)"
  by (simp add: atomic_write_tle_steps_def Let_def)

text \<open>
  C7. The claim holds of the file of elements (lemma \<open>atomic_write_tle_old_or_new\<close>) and
  fails for the metadata: \<open>_write_meta\<close> writes the file in place, so between its two
  steps the file is empty, neither the old record nor the new one.
\<close>

theorem write_meta_passes_through_empty_file:
  "map (\<lambda>s. meta_files s catnr) (write_meta_steps env st catnr source) =
     [Some Unreadable, Some (Decoded (meta_record env st catnr source))]"
  by (simp add: write_meta_steps_def)

subsection \<open>Refresh\<close>

lemma celestrak_loop_sent:
  "length (snd (celestrak_loop env catnr us)) \<le> length us"
  by (induction us) (auto split: http_reply.splits option.splits prod.splits)

lemma fetch_tle_from_satnogs_eq:
  "fst (fetch_tle_from_satnogs env catnr st) = satnogs_tle env catnr"
  "snd (fetch_tle_from_satnogs env catnr st) = st\<lparr>requests := requests st @ [Satnogs catnr]\<rparr>"
  by (simp_all add: fetch_tle_from_satnogs_def)

lemma fetch_tle_from_celestrak_eq:
  "fst (fetch_tle_from_celestrak env catnr st) =
     fst (celestrak_loop env catnr [CelestrakOrg catnr, CelestrakCom catnr])"
  "snd (fetch_tle_from_celestrak env catnr st) =
     st\<lparr>requests := requests st @
       snd (celestrak_loop env catnr [CelestrakOrg catnr, CelestrakCom catnr])\<rparr>"
  by (simp_all add: fetch_tle_from_celestrak_def case_prod_beta del: celestrak_loop.simps)

text \<open>\<open>refresh_tle_best_effort\<close> past the cooldown test, case by case.\<close>

lemma refresh_satnogs:
  assumes "\<not> in_cooldown st catnr" and "satnogs_tle env catnr = Some (nm, l1, l2)"
  shows "refresh_tle_best_effort env catnr st =
    (True, write_meta env (atomic_write_tle
       (st\<lparr>last_refresh_attempt := (last_refresh_attempt st)(catnr \<mapsto> clock st),
           requests := requests st @ [Satnogs catnr]\<rparr>) catnr nm l1 l2) catnr ''satnogs'')"
  using assms by (simp add: refresh_tle_best_effort_def fetch_tle_from_satnogs_def)

lemma refresh_celestrak:
  assumes "\<not> in_cooldown st catnr" and "satnogs_tle env catnr = None"
    and "celestrak_loop env catnr [CelestrakOrg catnr, CelestrakCom catnr] = (Some (nm, l1, l2), sent)"
  shows "refresh_tle_best_effort env catnr st =
    (True, write_meta env (atomic_write_tle
       (st\<lparr>last_refresh_attempt := (last_refresh_attempt st)(catnr \<mapsto> clock st),
           requests := requests st @ Satnogs catnr # sent\<rparr>) catnr nm l1 l2) catnr ''celestrak'')"
  using assms
  by (simp add: refresh_tle_best_effort_def fetch_tle_from_satnogs_def
      fetch_tle_from_celestrak_def del: celestrak_loop.simps)

lemma refresh_exhausted:
  assumes "\<not> in_cooldown st catnr" and "satnogs_tle env catnr = None"
    and "celestrak_loop env catnr [CelestrakOrg catnr, CelestrakCom catnr] = (None, sent)"
  shows "refresh_tle_best_effort env catnr st =
    (False, st\<lparr>last_refresh_attempt := (last_refresh_attempt st)(catnr \<mapsto> clock st),
               requests := requests st @ Satnogs catnr # sent\<rparr>)"
  using assms
  by (simp add: refresh_tle_best_effort_def fetch_tle_from_satnogs_def
      fetch_tle_from_celestrak_def del: celestrak_loop.simps)

lemma refresh_gated:
  "in_cooldown st catnr \<Longrightarrow> refresh_tle_best_effort env catnr st = (False, st)"
  by (simp add: refresh_tle_best_effort_def)

lemma refresh_cases:
  obtains (gated) "in_cooldown st catnr"
  | (satnogs) nm l1 l2 where "\<not> in_cooldown st catnr" "satnogs_tle env catnr = Some (nm, l1, l2)"
  | (celestrak) nm l1 l2 sent where "\<not> in_cooldown st catnr" "satnogs_tle env catnr = None"
      "celestrak_loop env catnr [CelestrakOrg catnr, CelestrakCom catnr] = (Some (nm, l1, l2), sent)"
  | (exhausted) sent where "\<not> in_cooldown st catnr" "satnogs_tle env catnr = None"
      "celestrak_loop env catnr [CelestrakOrg catnr, CelestrakCom catnr] = (None, sent)"
proof (cases "in_cooldown st catnr")
  case True
  then show ?thesis by (rule gated)
next
  case nc: False
  show ?thesis
  proof (cases "satnogs_tle env catnr")
    case (Some t)
    then show ?thesis
      using nc satnogs by (cases t) auto
  next
    case None
    obtain r sent where
      loop: "celestrak_loop env catnr [CelestrakOrg catnr, CelestrakCom catnr] = (r, sent)"
      by (cases "celestrak_loop env catnr [CelestrakOrg catnr, CelestrakCom catnr]")
    show ?thesis
    proof (cases r)
      case None': None
      then show ?thesis
        using nc None loop exhausted by blast
    next
      case (Some t)
      then show ?thesis
        using nc None loop celestrak by (cases t) blast
    qed
  qed
qed

lemma refresh_records_attempt:
  assumes "\<not> in_cooldown st catnr"
  shows "last_refresh_attempt (snd (refresh_tle_best_effort env catnr st)) catnr = Some (clock st)"
proof (cases rule: refresh_cases [where st = st and catnr = catnr and env = env])
  case gated
  with assms show ?thesis by simp
next
  case (satnogs nm l1 l2)
  then show ?thesis
    by (simp add: refresh_satnogs write_meta_frame atomic_write_tle_frame)
next
  case (celestrak nm l1 l2 sent)
  then show ?thesis
    by (simp add: refresh_celestrak write_meta_frame atomic_write_tle_frame)
next
  case (exhausted sent)
  then show ?thesis
    by (simp add: refresh_exhausted)
qed

lemma refresh_requests:
  assumes "\<not> in_cooldown st catnr"
  shows "requests (snd (refresh_tle_best_effort env catnr st)) =
       requests st @ Satnogs catnr #
         (if satnogs_tle env catnr = None
          then snd (celestrak_loop env catnr [CelestrakOrg catnr, CelestrakCom catnr]) else [])"
proof (cases rule: refresh_cases [where st = st and catnr = catnr and env = env])
  case gated
  with assms show ?thesis by simp
next
  case (satnogs nm l1 l2)
  then show ?thesis
    by (simp add: refresh_satnogs write_meta_frame atomic_write_tle_frame)
next
  case (celestrak nm l1 l2 sent)
  then show ?thesis
    by (simp add: refresh_celestrak write_meta_frame atomic_write_tle_frame)
next
  case (exhausted sent)
  then show ?thesis
    by (simp add: refresh_exhausted)
qed

lemma refresh_false_unchanged:
  assumes "fst (refresh_tle_best_effort env catnr st) = False"
  shows "tle_files (snd (refresh_tle_best_effort env catnr st)) = tle_files st \<and>
     tmp_files (snd (refresh_tle_best_effort env catnr st)) = tmp_files st \<and>
     meta_files (snd (refresh_tle_best_effort env catnr st)) = meta_files st"
proof (cases rule: refresh_cases [where st = st and catnr = catnr and env = env])
  case gated
  then show ?thesis by (simp add: refresh_gated)
next
  case (satnogs nm l1 l2)
  with assms show ?thesis
    by (simp add: refresh_satnogs)
next
  case (celestrak nm l1 l2 sent)
  with assms show ?thesis
    by (simp add: refresh_celestrak)
next
  case (exhausted sent)
  then show ?thesis
    by (simp add: refresh_exhausted)
qed

text \<open>
  C8. When no source yields a checked record, \<open>refresh_tle_best_effort\<close> returns
  \<open>False\<close> and the files of the slot (elements, metadata, and the temporary file) are
  what they were.
\<close>

theorem refresh_failure_leaves_slot:
  assumes "satnogs_tle env catnr = None"
    and "fst (celestrak_loop env catnr [CelestrakOrg catnr, CelestrakCom catnr]) = None"
  shows "fst (refresh_tle_best_effort env catnr st) = False \<and>
         tle_files (snd (refresh_tle_best_effort env catnr st)) = tle_files st \<and>
         meta_files (snd (refresh_tle_best_effort env catnr st)) = meta_files st \<and>
         tmp_files (snd (refresh_tle_best_effort env catnr st)) = tmp_files st"
proof -
  have "fst (refresh_tle_best_effort env catnr st) = False"
  proof (cases rule: refresh_cases [where st = st and catnr = catnr and env = env])
    case gated
    then show ?thesis by (simp add: refresh_gated)
  next
    case (satnogs nm l1 l2)
    with assms show ?thesis by simp
  next
    case (celestrak nm l1 l2 sent)
    with assms show ?thesis by simp
  next
    case (exhausted sent)
    then show ?thesis by (simp add: refresh_exhausted)
  qed
  then show ?thesis
    using refresh_false_unchanged [of env catnr st] by simp
qed

theorem refresh_failure_leaves_slot_witness:
  "satnogs_tle offline 25544 = None \<and>
   fst (celestrak_loop offline 25544 [CelestrakOrg 25544, CelestrakCom 25544]) = None \<and>
   fst (refresh_tle_best_effort offline 25544 seeded_store) = False \<and>
   tle_files (snd (refresh_tle_best_effort offline 25544 seeded_store)) 25544 =
     Some (iss_payload, 0) \<and>
   meta_files (snd (refresh_tle_best_effort offline 25544 seeded_store)) 25544 =
     Some (Decoded (JObj [(''catnr'', JNum 25544), (''fetched_at_utc'', JStr ''0''),
       (''source'', JStr ''satnogs'')]))"
proof -
  have a: "satnogs_tle offline 25544 = None"
    by (simp add: offline_def)
  have b: "fst (celestrak_loop offline 25544 [CelestrakOrg 25544, CelestrakCom 25544]) = None"
    by (simp add: offline_def)
  have "tle_files seeded_store 25544 = Some (iss_payload, 0)"
    and "meta_files seeded_store 25544 =
      Some (Decoded (JObj [(''catnr'', JNum 25544), (''fetched_at_utc'', JStr ''0''),
        (''source'', JStr ''satnogs'')]))"
    by (simp_all add: seeded_store_def empty_store_def)
  then show ?thesis
    using refresh_failure_leaves_slot [OF a b, of seeded_store] a b by simp
qed

text \<open>
  C6, as amended. When a call of \<open>refresh_tle_best_effort\<close> passes the cooldown test, a
  second call for the same catalogue number less than two minutes later returns
  \<open>False\<close> at once, sends no request and changes nothing. The first call sends between
  one and three requests: to SatNOGS, then to the two addresses of CelesTrak.
\<close>

theorem second_refresh_in_cooldown:
  assumes "\<not> in_cooldown st catnr" and "t2 - clock st < REFRESH_COOLDOWN"
  shows "refresh_tle_best_effort env' catnr
           ((snd (refresh_tle_best_effort env catnr st))\<lparr>clock := t2\<rparr>) =
           (False, (snd (refresh_tle_best_effort env catnr st))\<lparr>clock := t2\<rparr>) \<and>
         length (requests st) + 1 \<le> length (requests (snd (refresh_tle_best_effort env catnr st))) \<and>
         length (requests (snd (refresh_tle_best_effort env catnr st))) \<le> length (requests st) + 3"
proof -
  let ?st1 = "snd (refresh_tle_best_effort env catnr st)"
  have "last_refresh_attempt (?st1\<lparr>clock := t2\<rparr>) catnr = Some (clock st)"
    using assms(1) by (simp add: refresh_records_attempt)
  then have "in_cooldown (?st1\<lparr>clock := t2\<rparr>) catnr"
    using assms(2) by (simp add: in_cooldown_def)
  then have gated: "refresh_tle_best_effort env' catnr (?st1\<lparr>clock := t2\<rparr>) =
      (False, ?st1\<lparr>clock := t2\<rparr>)"
    by (rule refresh_gated)
  have "length (snd (celestrak_loop env catnr [CelestrakOrg catnr, CelestrakCom catnr])) \<le> 2"
    using celestrak_loop_sent [of env catnr "[CelestrakOrg catnr, CelestrakCom catnr]"] by simp
  then have "length (requests st) + 1 \<le> length (requests ?st1) \<and>
      length (requests ?st1) \<le> length (requests st) + 3"
    using assms(1) by (simp add: refresh_requests)
  with gated show ?thesis
    by simp
qed

lemma celestrak_com_only_loop:
  "celestrak_loop celestrak_com_only 25544 [CelestrakOrg 25544, CelestrakCom 25544] =
     (Some (''ISS (ZARYA)'', iss_line1, iss_line2), [CelestrakOrg 25544, CelestrakCom 25544])"
  by (simp add: celestrak_com_only_def three_line_payload_found)

lemma first_refresh_example:
  "fst (refresh_tle_best_effort celestrak_com_only 25544 empty_store) = True"
  "requests (snd (refresh_tle_best_effort celestrak_com_only 25544 empty_store)) =
     [Satnogs 25544, CelestrakOrg 25544, CelestrakCom 25544]"
  "tle_files (snd (refresh_tle_best_effort celestrak_com_only 25544 empty_store)) 25544 =
     Some (iss_payload, 0)"
  "last_refresh_attempt (snd (refresh_tle_best_effort celestrak_com_only 25544 empty_store)) 25544 =
     Some 0"
proof -
  have nc: "\<not> in_cooldown empty_store 25544"
    by (simp add: in_cooldown_def empty_store_def)
  have sn: "satnogs_tle celestrak_com_only 25544 = None"
    by (simp add: celestrak_com_only_def)
  note r = refresh_celestrak [OF nc sn celestrak_com_only_loop]
  show "fst (refresh_tle_best_effort celestrak_com_only 25544 empty_store) = True"
    by (simp add: r)
  show "requests (snd (refresh_tle_best_effort celestrak_com_only 25544 empty_store)) =
     [Satnogs 25544, CelestrakOrg 25544, CelestrakCom 25544]"
    unfolding r by (simp add: write_meta_frame atomic_write_tle_frame empty_store_def)
  show "tle_files (snd (refresh_tle_best_effort celestrak_com_only 25544 empty_store)) 25544 =
     Some (iss_payload, 0)"
    unfolding r
    by (simp add: write_meta_frame atomic_write_tle_def atomic_write_tle_steps_def Let_def
        empty_store_def iss_payload_def)
  show "last_refresh_attempt (snd (refresh_tle_best_effort celestrak_com_only 25544 empty_store)) 25544 =
     Some 0"
    unfolding r by (simp add: write_meta_frame atomic_write_tle_frame empty_store_def)
qed

theorem second_refresh_in_cooldown_witness:
  "\<not> in_cooldown empty_store 25544 \<and> (60000000 :: int) - clock empty_store < REFRESH_COOLDOWN \<and>
   fst (refresh_tle_best_effort offline 25544
     ((snd (refresh_tle_best_effort celestrak_com_only 25544 empty_store))\<lparr>clock := 60000000\<rparr>)) =
     False \<and>
   requests (snd (refresh_tle_best_effort offline 25544
     ((snd (refresh_tle_best_effort celestrak_com_only 25544 empty_store))\<lparr>clock := 60000000\<rparr>))) =
     [Satnogs 25544, CelestrakOrg 25544, CelestrakCom 25544]"
proof -
  have a: "\<not> in_cooldown empty_store 25544"
    by (simp add: in_cooldown_def empty_store_def)
  have b: "(60000000 :: int) - clock empty_store < REFRESH_COOLDOWN"
    by (simp add: empty_store_def REFRESH_COOLDOWN_def)
  show ?thesis
    using second_refresh_in_cooldown [OF a b, of offline celestrak_com_only] a b
    by (simp add: first_refresh_example)
qed

text \<open>
  C6, as stated, fails: with SatNOGS down and the first address of CelesTrak answering
  403, the first of two calls one minute apart sends three requests, to three addresses.
\<close>

theorem two_refreshes_three_requests_counterexample:
  "requests (snd (refresh_tle_best_effort celestrak_com_only 25544
     ((snd (refresh_tle_best_effort celestrak_com_only 25544 empty_store))\<lparr>clock := 60000000\<rparr>))) =
     [Satnogs 25544, CelestrakOrg 25544, CelestrakCom 25544]"
proof -
  let ?st1 = "snd (refresh_tle_best_effort celestrak_com_only 25544 empty_store)"
  have "in_cooldown (?st1\<lparr>clock := 60000000\<rparr>) 25544"
    by (simp add: in_cooldown_def first_refresh_example REFRESH_COOLDOWN_def)
  then show ?thesis
    by (simp add: refresh_gated first_refresh_example)
qed

subsection \<open>Staleness\<close>








subsection \<open>Resolution of a satellite\<close>








end
